theory Spec2Isabelle
  imports Main
begin

section \<open>JavaScript values\<close>

text \<open>
  The conversation plugin works on plain JavaScript objects: activities, conversations,
  request descriptors and KMS messages are object literals or parsed JSON. A value is
  \<open>undefined\<close>, \<open>null\<close>, a boolean, a number (the code only meets integers: limits,
  status codes, sizes), a string, an array or a plain object. An object is the list of
  its own properties in insertion order; a read takes the first entry of a name.

  Three things a JavaScript value can be are left out. Functions are not values: every
  callback the code receives (the preparation hook, the transport, the KMS) is a
  parameter of the function that calls it. Values are trees: no object is shared between
  two places, as in object literals and parsed JSON, so an update through one name is
  never seen through another; where the code updates an argument in place and goes on
  using it, the updated value is handed on. And an array carries its elements only:
  where the code could hang a named property on an array (an array in the place of an
  activity's \<open>object\<close> or \<open>target\<close>), the model leaves the array as it is.
\<close>

datatype jsval =
    JUndefined
  | JNull
  | JBool bool
  | JNum int
  | JStr string
  | JArr "jsval list"
  | JObj "(string \<times> jsval) list"

type_synonym props = "(string \<times> jsval) list"

text \<open>
  A rejected promise or a thrown exception: an \<open>Error\<close> the plugin creates itself with
  its message, a \<open>TypeError\<close> of the language (a property read on \<open>undefined\<close>, a call
  of something that is no function), or the reason a collaborator rejected with (an
  object, for the transport one that carries \<open>statusCode\<close>).
\<close>

datatype error =
    Error string
  | TypeError string
  | Reason props

text \<open>ToBoolean, as \<open>if (v)\<close>, \<open>!v\<close>, \<open>a || b\<close> and \<open>a && b\<close> apply it.\<close>

fun truthy :: "jsval \<Rightarrow> bool" where
  "truthy JUndefined = False"
| "truthy JNull = False"
| "truthy (JBool b) = b"
| "truthy (JNum n) = (n \<noteq> 0)"
| "truthy (JStr s) = (s \<noteq> [])"
| "truthy (JArr xs) = True"
| "truthy (JObj ps) = True"

text \<open>\<open>a || b\<close>\<close>

definition js_or :: "jsval \<Rightarrow> jsval \<Rightarrow> jsval" where
  "js_or a b = (if truthy a then a else b)"

text \<open>\<open>o[k]\<close> on an object: the value of the property, \<open>undefined\<close> when there is none.\<close>

definition lookup :: "props \<Rightarrow> string \<Rightarrow> jsval" where
  "lookup ps k = (case map_of ps k of None \<Rightarrow> JUndefined | Some v \<Rightarrow> v)"

text \<open>\<open>k in o\<close> for a plain object: it has a property of that name.\<close>

definition has_key :: "props \<Rightarrow> string \<Rightarrow> bool" where
  "has_key ps k = (map_of ps k \<noteq> None)"

text \<open>\<open>o[k] = v\<close> on an object: overwrite in place, or add at the end.\<close>

fun put :: "string \<Rightarrow> jsval \<Rightarrow> props \<Rightarrow> props" where
  "put k v [] = [(k, v)]"
| "put k v ((k', v') # ps) = (if k' = k then (k, v) # ps else (k', v') # put k v ps)"

text \<open>
  \<open>v.k\<close> for a name that is no built-in of strings, numbers or arrays (every name the
  code reads but \<open>length\<close>): the property of an object, \<open>undefined\<close> on any other value
  that can be read. Reading a property of \<open>undefined\<close> or \<open>null\<close> throws; \<open>field\<close> is for
  the reads the code guards (\<open>v && v.k\<close>), \<open>fieldE\<close> for the ones it does not.
\<close>

fun field :: "jsval \<Rightarrow> string \<Rightarrow> jsval" where
  "field (JObj ps) k = lookup ps k"
| "field v k = JUndefined"

fun fieldE :: "jsval \<Rightarrow> string \<Rightarrow> error + jsval" where
  "fieldE JUndefined k = Inl (TypeError (''Cannot read property '' @ k @ '' of undefined''))"
| "fieldE JNull k = Inl (TypeError (''Cannot read property '' @ k @ '' of null''))"
| "fieldE v k = Inr (field v k)"

text \<open>lodash \<open>isString\<close>, \<open>isArray\<close>, \<open>isObject\<close> (arrays are objects).\<close>

fun isString :: "jsval \<Rightarrow> bool" where
  "isString (JStr s) = True"
| "isString v = False"


fun isObject :: "jsval \<Rightarrow> bool" where
  "isObject (JObj ps) = True"
| "isObject (JArr xs) = True"
| "isObject v = False"

text \<open>\<open>xs[0]\<close> on an array: \<open>undefined\<close> when the array is empty.\<close>

fun first_elem :: "jsval list \<Rightarrow> jsval" where
  "first_elem [] = JUndefined"
| "first_elem (x # xs) = x"

text \<open>Sequencing of promise steps: a rejection skips the steps after it.\<close>

definition bindE :: "error + 'a \<Rightarrow> ('a \<Rightarrow> error + 'b) \<Rightarrow> error + 'b" where
  "bindE r f = (case r of Inl e \<Rightarrow> Inl e | Inr x \<Rightarrow> f x)"

subsection \<open>Strings\<close>

text \<open>Decimal digits of a number, for template strings and array index names.\<close>

fun show_nat :: "nat \<Rightarrow> string" where
  "show_nat n =
     (if n < 10 then [char_of (48 + n)]
      else show_nat (n div 10) @ [char_of (48 + n mod 10)])"

definition show_int :: "int \<Rightarrow> string" where
  "show_int i = (if i < 0 then CHR ''-'' # show_nat (nat (- i)) else show_nat (nat i))"

text \<open>\<open>xs.join(sep)\<close> on strings.\<close>

fun join :: "string \<Rightarrow> string list \<Rightarrow> string" where
  "join sep [] = []"
| "join sep [x] = x"
| "join sep (x # y # ys) = x @ sep @ join sep (y # ys)"

text \<open>
  ToString, as a template string applies it. An array is its elements joined by commas,
  \<open>undefined\<close> and \<open>null\<close> elements being empty.
\<close>

fun js_toString :: "jsval \<Rightarrow> string" where
  "js_toString JUndefined = ''undefined''"
| "js_toString JNull = ''null''"
| "js_toString (JBool b) = (if b then ''true'' else ''false'')"
| "js_toString (JNum n) = show_int n"
| "js_toString (JStr s) = s"
| "js_toString (JObj ps) = ''[object Object]''"
| "js_toString (JArr xs) =
     join '','' (map (\<lambda>x. if x = JUndefined \<or> x = JNull then [] else js_toString x) xs)"

text \<open>\<open>s.split('/').pop()\<close>: what follows the last slash, the whole string without one.\<close>

definition last_segment :: "string \<Rightarrow> string" where
  "last_segment s = rev (takeWhile (\<lambda>c. c \<noteq> CHR ''/'') (rev s))"

section \<open>The lodash functions the plugin uses\<close>

text \<open>
  The names lodash enumerates on a source (\<open>keysIn\<close>): the properties of an object,
  the indices of an array or of a string, nothing on any other value.
\<close>

fun keysIn :: "jsval \<Rightarrow> props" where
  "keysIn (JObj ps) = ps"
| "keysIn (JArr xs) = zip (map show_nat [0..<length xs]) xs"
| "keysIn (JStr s) = zip (map show_nat [0..<length s]) (map (\<lambda>c. JStr [c]) s)"
| "keysIn v = []"

text \<open>
  \<open>defaults(object, source)\<close>: every property of the source whose value in the
  destination is \<open>undefined\<close> is copied; nothing present is overwritten.
\<close>

definition defaults :: "props \<Rightarrow> props \<Rightarrow> props" where
  "defaults obj src =
     fold (\<lambda>kv acc. if lookup acc (fst kv) = JUndefined then put (fst kv) (snd kv) acc else acc)
       src obj"

text \<open>
  \<open>defaults\<close> called on a property value, for its effect on that value: an object is
  filled in place; for a string, number or boolean lodash fills a wrapper it throws away,
  and an array stays as it is.
\<close>

definition defaults_val :: "jsval \<Rightarrow> jsval \<Rightarrow> jsval" where
  "defaults_val obj src = (case obj of JObj ps \<Rightarrow> JObj (defaults ps (keysIn src)) | _ \<Rightarrow> obj)"

text \<open>
  \<open>pick(object, ...names)\<close>: the named properties the object has, in the order of the
  names; the empty object for any value that has none of them.
\<close>

definition pick :: "jsval \<Rightarrow> string list \<Rightarrow> props" where
  "pick v ks =
     (case v of JObj ps \<Rightarrow> map (\<lambda>k. (k, lookup ps k)) (filter (has_key ps) ks) | _ \<Rightarrow> [])"

text \<open>\<open>omit(object, ...names)\<close>: the properties of the object without the named ones.\<close>

definition omit :: "jsval \<Rightarrow> string list \<Rightarrow> props" where
  "omit v ks = filter (\<lambda>kv. fst kv \<notin> set ks) (keysIn v)"

text \<open>\<open>Object.assign(target, source)\<close>: every property of the source overwrites.\<close>

definition object_assign :: "props \<Rightarrow> props \<Rightarrow> props" where
  "object_assign target src = fold (\<lambda>kv acc. put (fst kv) (snd kv) acc) src target"

text \<open>
  \<open>merge(object, source)\<close> recurses into objects and arrays of the source. A source
  value that is neither is assigned unless it is \<open>undefined\<close> (\<open>assignMergeValue\<close>);
  an object of the source is merged into the object at the destination, or into a fresh
  one when the destination holds none; an array is merged index by index.
\<close>

definition assignMergeValue :: "props \<Rightarrow> string \<Rightarrow> jsval \<Rightarrow> props" where
  "assignMergeValue obj k v =
     (if (v \<noteq> JUndefined \<and> lookup obj k \<noteq> v) \<or> (v = JUndefined \<and> \<not> has_key obj k)
      then put k v obj else obj)"

definition elem_at :: "jsval list \<Rightarrow> nat \<Rightarrow> jsval" where
  "elem_at xs i = (if i < length xs then xs ! i else JUndefined)"

definition set_elem :: "jsval list \<Rightarrow> nat \<Rightarrow> jsval \<Rightarrow> jsval list" where
  "set_elem xs i v =
     (if i < length xs then xs[i := v] else xs @ replicate (i - length xs) JUndefined @ [v])"

fun baseMergeDeep :: "jsval \<Rightarrow> jsval \<Rightarrow> jsval"
  and merge_props :: "props \<Rightarrow> props \<Rightarrow> props"
  and merge_elems :: "jsval list \<Rightarrow> nat \<Rightarrow> jsval list \<Rightarrow> jsval list" where
  "baseMergeDeep objValue (JObj sp) =
     JObj (merge_props (case objValue of JObj op \<Rightarrow> op | _ \<Rightarrow> []) sp)"
| "baseMergeDeep objValue (JArr ss) =
     JArr (merge_elems (case objValue of JArr os \<Rightarrow> os | _ \<Rightarrow> []) 0 ss)"
| "baseMergeDeep objValue srcValue = srcValue"
| "merge_props obj [] = obj"
| "merge_props obj ((k, srcValue) # sp) =
     merge_props
       (if isObject srcValue then put k (baseMergeDeep (lookup obj k) srcValue) obj
        else assignMergeValue obj k srcValue) sp"
| "merge_elems obj i [] = obj"
| "merge_elems obj i (srcValue # ss) =
     merge_elems
       (if isObject srcValue then set_elem obj i (baseMergeDeep (elem_at obj i) srcValue)
        else if srcValue \<noteq> JUndefined \<or> length obj \<le> i then set_elem obj i srcValue
        else obj) (Suc i) ss"

text \<open>\<open>map(collection, 'name')\<close>: the named property of every element; of \<open>undefined\<close>
  or \<open>null\<close>, nothing. An element that is \<open>undefined\<close> or \<open>null\<close> gives \<open>undefined\<close>.\<close>

fun map_property :: "jsval \<Rightarrow> string \<Rightarrow> jsval list" where
  "map_property (JArr xs) k = map (\<lambda>x. field x k) xs"
| "map_property (JObj ps) k = map (\<lambda>kv. field (snd kv) k) ps"
| "map_property (JStr s) k = map (\<lambda>c. JUndefined) s"
| "map_property v k = []"

section \<open>Promises and collaborators\<close>

text \<open>
  Every operation of the plugin returns a promise. A promise is modelled by what it
  settles to, \<open>Inr\<close> a value or \<open>Inl\<close> a rejection, together with the calls the
  operation made on its surroundings on the way, in the order it made them. An
  exception an operation throws before its first promise exists (a property read in its
  first statement) is the rejection it becomes in the chain that called the operation.
\<close>

datatype effect =
    Trigger string
  | Request props
  | GetServiceUrl string
  | AsUUID jsval
  | RecordUUID jsval
  | CreateUnboundKeys int
  | Warn string

type_synonym 'a promise = "effect list \<times> (error + 'a)"

definition resolve :: "'a \<Rightarrow> 'a promise" where
  "resolve x = ([], Inr x)"

definition reject :: "error \<Rightarrow> 'a promise" where
  "reject e = ([], Inl e)"

text \<open>A call of a collaborator: the call is recorded, its outcome is what it answered.\<close>

definition call :: "effect \<Rightarrow> error + 'a \<Rightarrow> 'a promise" where
  "call e r = ([e], r)"

text \<open>\<open>p.then(f)\<close> and \<open>p.catch(f)\<close>.\<close>

definition andThen :: "'a promise \<Rightarrow> ('a \<Rightarrow> 'b promise) \<Rightarrow> 'b promise" where
  "andThen p f =
     (case p of
        (t, Inl e) \<Rightarrow> (t, Inl e)
      | (t, Inr x) \<Rightarrow> (case f x of (t', r) \<Rightarrow> (t @ t', r)))"

definition orCatch :: "'a promise \<Rightarrow> (error \<Rightarrow> 'a promise) \<Rightarrow> 'a promise" where
  "orCatch p f =
     (case p of
        (t, Inl e) \<Rightarrow> (case f e of (t', r) \<Rightarrow> (t @ t', r))
      | (t, Inr x) \<Rightarrow> (t, Inr x))"

text \<open>\<open>Promise.all(xs.map(f))\<close>: every call is started; the first rejection wins.\<close>

fun promise_all :: "('a \<Rightarrow> 'b promise) \<Rightarrow> 'a list \<Rightarrow> 'b list promise" where
  "promise_all f [] = ([], Inr [])"
| "promise_all f (x # xs) =
     (case f x of (t, r) \<Rightarrow>
        (case promise_all f xs of (ts, rs) \<Rightarrow>
           (t @ ts,
            case r of
              Inl e \<Rightarrow> Inl e
            | Inr y \<Rightarrow> (case rs of Inl e \<Rightarrow> Inl e | Inr ys \<Rightarrow> Inr (y # ys)))))"

text \<open>
  What the plugin reads from its surroundings: the identifier of the current user
  (\<open>this.spark.device.userId\<close>), the identifier \<open>uuid.v4()\<close> draws, whether
  \<open>NODE_ENV\<close> is \<open>production\<close>, and the answers of the service catalogue, the
  transport, the identity service and the KMS. \<open>tap\<close> comes from the common package:
  it runs a function beside the chain and passes the chain's value on; whether it also
  passes on when that function rejects is its business, and a parameter here.
\<close>

record world =
  userId :: jsval
  uuid_v4 :: string
  production :: bool
  tap_swallows :: bool
  getServiceUrl :: "string \<Rightarrow> error + string"
  request :: "props \<Rightarrow> error + jsval"
  asUUID :: "jsval \<Rightarrow> error + string"
  recordUUID :: "jsval \<Rightarrow> error + unit"
  createUnboundKeys :: "int \<Rightarrow> error + jsval"

text \<open>The requests among the calls an operation made, in order.\<close>

fun requests :: "effect list \<Rightarrow> props list" where
  "requests [] = []"
| "requests (Request r # es) = r # requests es"
| "requests (e # es) = requests es"

text \<open>
  The \<open>kmsMessage\<close> in the body of every request among the calls, in order; and whether
  a step settled to a value.
\<close>

definition submitted_kmsMessages :: "effect list \<Rightarrow> jsval list" where
  "submitted_kmsMessages es = map (\<lambda>r. field (lookup r ''body'') ''kmsMessage'') (requests es)"

fun accepted :: "error + 'a \<Rightarrow> bool" where
  "accepted (Inr x) = True"
| "accepted (Inl e) = False"


section \<open>Building an activity: \<open>prepareConversation\<close> and \<open>prepare\<close>\<close>

definition prepareConversation :: "jsval \<Rightarrow> props" where
  "prepareConversation conversation =
     defaults
       (pick conversation
          [''id'', ''url'', ''objectType'', ''defaultActivityEncryptionKeyUrl'',
           ''kmsResourceObjectUrl''])
       [(''objectType'', JStr ''conversation'')]"

text \<open>
  The activity handed to \<open>prepare\<close> is an object; a \<open>ShareActivity\<close> also has a
  \<open>prepare\<close> method of its own, which \<open>prepare\<close> calls with the parameters and whose
  answer replaces the activity.
\<close>

record activity_arg =
  act_fields :: props
  act_prepare :: "(props \<Rightarrow> error + props) option"

text \<open>The two errors \<open>prepare\<close> raises itself.\<close>

definition objectType_error :: "string \<Rightarrow> error" where
  "objectType_error key = Error (''`act.'' @ key @ ''.objectType` must be defined'')"

definition content_error :: error where
  "content_error = Error ''Cannot submit activity object with `content` but no `displayName`''"

text \<open>\<open>if (isString(act.actor)) act.actor = {objectType: 'person', id: act.actor}\<close>\<close>

definition normalize_actor :: "props \<Rightarrow> props" where
  "normalize_actor act =
     (if isString (lookup act ''actor'')
      then put ''actor'' (JObj [(''objectType'', JStr ''person''), (''id'', lookup act ''actor'')]) act
      else act)"

text \<open>
  The body of the loop over \<open>actor\<close> and \<open>object\<close>:
  \<open>if (params[key]) { act[key] = act[key] || {}; defaults(act[key], params[key]); }\<close>
\<close>

definition default_from_params :: "props \<Rightarrow> string \<Rightarrow> props \<Rightarrow> props" where
  "default_from_params params key act =
     (if truthy (lookup params key)
      then put key (defaults_val (js_or (lookup act key) (JObj [])) (lookup params key)) act
      else act)"

text \<open>\<open>if (params.target) merge(act, {target: pick(params.target, ...)})\<close>\<close>

definition apply_target :: "props \<Rightarrow> props \<Rightarrow> props" where
  "apply_target params act =
     (if truthy (lookup params ''target'')
      then merge_props act
             [(''target'',
               JObj (pick (lookup params ''target'')
                 [''id'', ''url'', ''objectType'', ''kmsResourceObjectUrl'',
                  ''defaultActivityEncryptionKeyUrl'']))]
      else act)"

text \<open>
  The loop over \<open>object\<close> and \<open>target\<close>:
  \<open>if (act[key] && act[key].url && !act[key].id) act[key].id = act[key].url.split('/').pop()\<close>.
  Only an object has a \<open>url\<close>; a \<open>url\<close> that is no string has no \<open>split\<close>.
\<close>

fun derive_ids :: "string list \<Rightarrow> props \<Rightarrow> error + props" where
  "derive_ids [] act = Inr act"
| "derive_ids (key # keys) act =
     (if truthy (lookup act key) \<and> truthy (field (lookup act key) ''url'')
         \<and> \<not> truthy (field (lookup act key) ''id'')
      then (case (lookup act key, field (lookup act key) ''url'') of
              (JObj ps, JStr u) \<Rightarrow>
                derive_ids keys (put key (JObj (put ''id'' (JStr (last_segment u)) ps)) act)
            | _ \<Rightarrow> Inl (TypeError (''act.'' @ key @ ''.url.split is not a function'')))
      else derive_ids keys act)"

text \<open>
  The loop over \<open>actor\<close>, \<open>object\<close> and \<open>target\<close>:
  \<open>if (act[key] && !act[key].objectType) throw new Error(...)\<close>
\<close>

definition lacks_objectType :: "props \<Rightarrow> string \<Rightarrow> bool" where
  "lacks_objectType act key =
     (truthy (lookup act key) \<and> \<not> truthy (field (lookup act key) ''objectType''))"

fun check_objectTypes :: "string list \<Rightarrow> props \<Rightarrow> error + props" where
  "check_objectTypes [] act = Inr act"
| "check_objectTypes (key # keys) act =
     (if lacks_objectType act key then Inl (objectType_error key)
      else check_objectTypes keys act)"

text \<open>\<open>act.object && act.object.content && !act.object.displayName\<close>\<close>

definition content_without_displayName :: "props \<Rightarrow> bool" where
  "content_without_displayName act =
     (truthy (lookup act ''object'') \<and> truthy (field (lookup act ''object'') ''content'')
      \<and> \<not> truthy (field (lookup act ''object'') ''displayName''))"

definition check_content :: "props \<Rightarrow> error + props" where
  "check_content act = (if content_without_displayName act then Inl content_error else Inr act)"

text \<open>
  \<open>prepare\<close> up to its two checks: the hook, the defaults, the actor, the parameters'
  \<open>actor\<close> and \<open>object\<close>, the target, the derived ids. Its value is the activity the
  checks then look at.
\<close>

definition prepare_build :: "world \<Rightarrow> activity_arg option \<Rightarrow> props option \<Rightarrow> error + props" where
  "prepare_build w activity params =
     (let params = (case params of None \<Rightarrow> [] | Some p \<Rightarrow> p);
          activity = (case activity of None \<Rightarrow> \<lparr>act_fields = [], act_prepare = None\<rparr> | Some a \<Rightarrow> a)
      in bindE (case act_prepare activity of
                  Some hook \<Rightarrow> hook params
                | None \<Rightarrow> Inr (act_fields activity))
           (\<lambda>act.
              derive_ids [''object'', ''target'']
                (apply_target params
                  (fold (default_from_params params) [''actor'', ''object'']
                    (normalize_actor
                      (defaults act
                        [(''verb'', lookup params ''verb''),
                         (''kmsMessage'', lookup params ''kmsMessage''),
                         (''objectType'', JStr ''activity''),
                         (''clientTempId'', JStr (uuid_v4 w)),
                         (''actor'', userId w)]))))))"

definition prepare :: "world \<Rightarrow> activity_arg option \<Rightarrow> props option \<Rightarrow> error + props" where
  "prepare w activity params =
     bindE (prepare_build w activity params)
       (\<lambda>act. bindE (check_objectTypes [''actor'', ''object'', ''target''] act) check_content)"

section \<open>Submitting an activity: \<open>submit\<close>\<close>

text \<open>
  The request descriptor is an object literal; \<open>verb === 'share'\<close> chooses the resource
  and adds two query parameters; \<open>verb !== 'acknowledge'\<close> raises \<open>user-activity\<close>
  before the request is issued. The promise settles to the \<open>body\<close> of the response.
\<close>

definition submit_params :: "props \<Rightarrow> props" where
  "submit_params activity =
     (let qs = [(''personRefresh'', JBool True)];
          qs = (if lookup activity ''verb'' = JStr ''share''
                then object_assign qs [(''transcode'', JBool True), (''async'', JBool False)]
                else qs)
      in [(''method'', JStr ''POST''),
          (''service'', JStr ''conversation''),
          (''resource'',
           JStr (if lookup activity ''verb'' = JStr ''share'' then ''content'' else ''activities'')),
          (''body'', JObj activity),
          (''qs'', JObj qs)])"

definition submit :: "world \<Rightarrow> props \<Rightarrow> jsval promise" where
  "submit w activity =
     andThen
       (if lookup activity ''verb'' \<noteq> JStr ''acknowledge''
        then call (Trigger ''user-activity'') (Inr ())
        else resolve ())
       (\<lambda>_. andThen (call (Request (submit_params activity)) (request w (submit_params activity)))
               (\<lambda>res. ([], fieldE res ''body'')))"

text \<open>
  The tail every operation ends with:
  \<open>this.prepare(activity, params).then((a) => this.submit(a))\<close>
\<close>

definition prepare_then_submit ::
  "world \<Rightarrow> activity_arg option \<Rightarrow> props option \<Rightarrow> jsval promise" where
  "prepare_then_submit w activity params =
     andThen ([], prepare w activity params) (submit w)"

section \<open>Binding a key: \<open>_updateKey\<close>\<close>

text \<open>
  \<open>Promise.resolve(key || this.spark.encryption.kms.createUnboundKeys({count: 1}))\<close>:
  the KMS is asked only when the caller gave no key.
\<close>

definition resolve_keys :: "world \<Rightarrow> jsval \<Rightarrow> jsval promise" where
  "resolve_keys w key =
     (if truthy key then resolve key
      else call (CreateUnboundKeys 1) (createUnboundKeys w 1))"

text \<open>\<open>const k = isArray(keys) ? keys[0] : keys\<close>\<close>

definition first_key :: "jsval \<Rightarrow> jsval" where
  "first_key keys = (case keys of JArr xs \<Rightarrow> first_elem xs | _ \<Rightarrow> keys)"

text \<open>
  The parameters \<open>_updateKey\<close> hands to \<open>prepare\<close>, in the order the code evaluates
  them: the target, \<open>k.uri\<close>, then the branch on
  \<open>conversation.defaultActivityEncryptionKeyUrl\<close>, where only the second branch reads
  \<open>conversation.participants.items\<close>.
\<close>

definition updateKey_params :: "jsval \<Rightarrow> jsval \<Rightarrow> error + props" where
  "updateKey_params conversation k =
     bindE (fieldE k ''uri'') (\<lambda>uri.
       let params =
         [(''verb'', JStr ''updateKey''),
          (''target'', JObj (prepareConversation conversation)),
          (''object'',
           JObj [(''defaultActivityEncryptionKeyUrl'', uri),
                 (''objectType'', JStr ''conversation'')])]
       in bindE (fieldE conversation ''defaultActivityEncryptionKeyUrl'') (\<lambda>keyUrl.
            if truthy keyUrl
            then Inr (put ''kmsMessage''
                        (JObj [(''method'', JStr ''update''),
                               (''resourceUri'', JStr ''<KRO>''),
                               (''uri'', uri)])
                        params)
            else bindE (fieldE conversation ''participants'') (\<lambda>participants.
                   bindE (fieldE participants ''items'') (\<lambda>items.
                     Inr (put ''kmsMessage''
                            (JObj [(''method'', JStr ''create''),
                                   (''uri'', JStr ''/resources''),
                                   (''userIds'', JArr (map_property items ''id'')),
                                   (''keyUris'', JArr [uri])])
                            params)))))"

definition priv_updateKey ::
  "world \<Rightarrow> jsval \<Rightarrow> jsval \<Rightarrow> activity_arg option \<Rightarrow> jsval promise" where
  "priv_updateKey w conversation key activity =
     andThen (resolve_keys w key) (\<lambda>keys.
       andThen ([], updateKey_params conversation (first_key keys)) (\<lambda>params.
         prepare_then_submit w activity (Some params)))"

text \<open>The key \<open>_updateKey\<close> binds, when it gets one.\<close>

definition bound_key :: "world \<Rightarrow> jsval \<Rightarrow> error + jsval" where
  "bound_key w key = bindE (snd (resolve_keys w key)) (\<lambda>keys. Inr (first_key keys))"

section \<open>Conversations: lookup, post and creation\<close>

text \<open>\<open>o.k = v\<close> on a value that is an object.\<close>

definition set_field :: "jsval \<Rightarrow> string \<Rightarrow> jsval \<Rightarrow> jsval" where
  "set_field obj k v = (case obj of JObj ps \<Rightarrow> JObj (put k v ps) | _ \<Rightarrow> obj)"

text \<open>
  \<open>_inferConversationUrl\<close>: a conversation with an \<open>id\<close> and no \<open>url\<close> gets its
  \<open>url\<close> from the service catalogue, in place, with a warning outside production.
\<close>

definition priv_inferConversationUrl :: "world \<Rightarrow> jsval \<Rightarrow> jsval promise" where
  "priv_inferConversationUrl w conversation =
     andThen ([], fieldE conversation ''url'') (\<lambda>url.
       if \<not> truthy url \<and> truthy (field conversation ''id'')
       then andThen (call (GetServiceUrl ''conversation'') (getServiceUrl w ''conversation''))
              (\<lambda>base.
                 andThen
                   (if \<not> production w
                    then call (Warn ''conversation: inferred conversation url from conversation id; please pass whole conversation objects to Conversation methods'') (Inr ())
                    else resolve ())
                   (\<lambda>_. resolve
                      (set_field conversation ''url''
                         (JStr (base @ ''/conversations/''
                                @ js_toString (field conversation ''id''))))))
       else resolve conversation)"

text \<open>
  \<open>_recordUUIDs\<close>: every participant of the conversation is recorded with the identity
  service; a conversation without participants is left alone.
\<close>

definition priv_recordUUIDs :: "world \<Rightarrow> jsval \<Rightarrow> unit promise" where
  "priv_recordUUIDs w conversation =
     andThen ([], fieldE conversation ''participants'') (\<lambda>participants.
       if \<not> truthy participants \<or> \<not> truthy (field participants ''items'')
       then resolve ()
       else (case field participants ''items'' of
               JArr items \<Rightarrow>
                 andThen (promise_all (\<lambda>p. call (RecordUUID p) (recordUUID w p)) items)
                   (\<lambda>_. resolve ())
             | _ \<Rightarrow> reject (TypeError ''conversation.participants.items.map is not a function'')))"

text \<open>\<open>tap(fn)\<close> in a chain: \<open>fn\<close> runs, the chain's value goes on.\<close>

definition tap :: "world \<Rightarrow> ('a \<Rightarrow> unit promise) \<Rightarrow> 'a \<Rightarrow> 'a promise" where
  "tap w fn r =
     (case fn r of
        (t, Inl e) \<Rightarrow> (t, if tap_swallows w then Inr r else Inl e)
      | (t, Inr u) \<Rightarrow> (t, Inr r))"

text \<open>
  \<open>get\<close>: a conversation given by \<open>user\<close> is looked up under
  \<open>conversations/user/<uuid>\<close>, any other by its \<open>url\<close>.
\<close>

definition get :: "world \<Rightarrow> jsval \<Rightarrow> jsval \<Rightarrow> jsval promise" where
  "get w conversation options =
     andThen
       (andThen
         (andThen (priv_inferConversationUrl w conversation) (\<lambda>conversation.
            let user = field conversation ''user'';
                url = field conversation ''url'';
                options = js_or options (JObj []);
                params =
                  [(''qs'',
                    JObj (object_assign
                      [(''uuidEntryFormat'', JBool True),
                       (''personRefresh'', JBool True),
                       (''activitiesLimit'', JNum 0),
                       (''includeParticipants'', JBool False)]
                      (omit options [''id'', ''user'', ''url''])))]
            in andThen
                 (if truthy user
                  then call (AsUUID user) (bindE (asUUID w user) (\<lambda>uuid. Inr (JStr uuid)))
                  else resolve JNull)
                 (\<lambda>userId.
                    let params =
                      (if truthy userId
                       then object_assign params
                              [(''service'', JStr ''conversation''),
                               (''resource'',
                                JStr (''conversations/user/'' @ js_toString userId))]
                       else put ''uri'' url params)
                    in call (Request params) (request w params))))
         (tap w (\<lambda>res. andThen ([], fieldE res ''body'') (priv_recordUUIDs w))))
       (\<lambda>res. ([], fieldE res ''body''))"

text \<open>
  \<open>post\<close>. The conversation is completed in place before the activity is built, so the
  model hands it back beside the activity the service answered with.
\<close>

definition post ::
  "world \<Rightarrow> jsval \<Rightarrow> jsval \<Rightarrow> activity_arg option \<Rightarrow> (jsval \<times> jsval) promise" where
  "post w conversation message activity =
     (let message = (if isString message then JObj [(''displayName'', message)] else message)
      in andThen (priv_inferConversationUrl w conversation) (\<lambda>conversation.
           andThen
             (prepare_then_submit w activity
                (Some [(''verb'', JStr ''post''),
                       (''target'', JObj (prepareConversation conversation)),
                       (''object'',
                        JObj (object_assign [(''objectType'', JStr ''comment'')]
                                (keysIn message)))]))
             (\<lambda>a. resolve (conversation, a))))"

text \<open>\<open>expand\<close>: an activity object from a verb, an object, a target and an actor.\<close>

definition expand :: "world \<Rightarrow> string \<Rightarrow> jsval \<Rightarrow> jsval \<Rightarrow> jsval \<Rightarrow> props" where
  "expand w verb object target actor =
     (let activity =
            [(''actor'', actor), (''objectType'', JStr ''activity''), (''verb'', JStr verb)];
          actor = (if \<not> truthy actor then userId w else actor);
          activity =
            (if isString actor
             then put ''actor'' (JObj [(''objectType'', JStr ''person''), (''id'', actor)]) activity
             else activity);
          activity = (if truthy object then put ''object'' object activity else activity);
          activity = (if truthy target then put ''target'' target activity else activity)
      in activity)"

text \<open>
  \<open>_prepareConversationForCreation\<close>: a \<open>create\<close> activity, an \<open>add\<close> per participant
  and a \<open>post\<close> for the comment, with the KMS message that creates the resource.
\<close>

definition priv_prepareConversationForCreation :: "world \<Rightarrow> props \<Rightarrow> error + props" where
  "priv_prepareConversationForCreation w params =
     (case lookup params ''participants'' of
        JArr participants \<Rightarrow>
          Inr ([(''activities'',
                 JObj [(''items'',
                   JArr ([JObj (expand w ''create'' JUndefined JUndefined JUndefined)]
                     @ map (\<lambda>participant.
                          JObj (expand w ''add''
                            (JObj [(''objectType'', JStr ''person''), (''id'', participant)])
                            JUndefined JUndefined)) participants
                     @ (if truthy (lookup params ''comment'')
                        then [JObj (expand w ''post''
                                (JObj [(''objectType'', JStr ''comment''),
                                       (''displayName'', lookup params ''comment'')])
                                JUndefined JUndefined)]
                        else [])))]),
                (''objectType'', JStr ''conversation''),
                (''kmsMessage'',
                 JObj [(''method'', JStr ''create''),
                       (''uri'', JStr ''/resources''),
                       (''userIds'', JArr participants),
                       (''keyUris'', JArr [])])]
               @ (if truthy (lookup params ''displayName'')
                  then [(''displayName'', lookup params ''displayName'')]
                  else []))
      | JUndefined \<Rightarrow> Inl (TypeError ''Cannot read property forEach of undefined'')
      | JNull \<Rightarrow> Inl (TypeError ''Cannot read property forEach of null'')
      | _ \<Rightarrow> Inl (TypeError ''params.participants.forEach is not a function''))"

definition create_request :: "props \<Rightarrow> props" where
  "create_request payload =
     [(''method'', JStr ''POST''),
      (''service'', JStr ''conversation''),
      (''resource'', JStr ''conversations''),
      (''body'', JObj payload)]"

definition priv_create :: "world \<Rightarrow> props \<Rightarrow> jsval promise" where
  "priv_create w payload =
     andThen (call (Request (create_request payload)) (request w (create_request payload)))
       (\<lambda>res. ([], fieldE res ''body''))"

text \<open>\<open>params.participants[1]\<close>\<close>

definition second_participant :: "jsval \<Rightarrow> error + jsval" where
  "second_participant participants =
     (case participants of
        JArr xs \<Rightarrow> Inr (elem_at xs 1)
      | JStr s \<Rightarrow> Inr (if 1 < length s then JStr [s ! 1] else JUndefined)
      | JObj ps \<Rightarrow> Inr (lookup ps ''1'')
      | JUndefined \<Rightarrow> Inl (TypeError ''Cannot read property 1 of undefined'')
      | JNull \<Rightarrow> Inl (TypeError ''Cannot read property 1 of null'')
      | _ \<Rightarrow> Inr JUndefined)"

text \<open>
  \<open>conversation.activities.push(activity)\<close>: only an array has \<open>push\<close>; on the object
  \<open>{items: [...]}\<close> the call is a call of \<open>undefined\<close>.
\<close>

definition push_activity :: "jsval \<Rightarrow> jsval \<Rightarrow> error + jsval" where
  "push_activity conversation activity =
     bindE (fieldE conversation ''activities'') (\<lambda>activities.
       case activities of
         JArr xs \<Rightarrow> Inr (set_field conversation ''activities'' (JArr (xs @ [activity])))
       | JUndefined \<Rightarrow> Inl (TypeError ''Cannot read property push of undefined'')
       | JNull \<Rightarrow> Inl (TypeError ''Cannot read property push of null'')
       | _ \<Rightarrow> Inl (TypeError ''conversation.activities.push is not a function''))"

text \<open>\<open>reason.statusCode\<close>: the errors of the language and of the plugin have none.\<close>

fun statusCode_of :: "error \<Rightarrow> jsval" where
  "statusCode_of (Reason ps) = lookup ps ''statusCode''"
| "statusCode_of e = JUndefined"

text \<open>
  \<open>_maybeCreateOneOnOneThenPost\<close>. The \<open>catch\<close> is chained behind the \<open>then\<close>, so it
  sees a rejection of the lookup and a rejection of what follows a successful lookup
  alike.
\<close>

definition one_on_one_lookup :: "world \<Rightarrow> jsval \<Rightarrow> jsval \<Rightarrow> jsval promise" where
  "one_on_one_lookup w other options = get w (JObj (defaults [(''user'', other)] [])) options"

definition priv_maybeCreateOneOnOneThenPost :: "world \<Rightarrow> props \<Rightarrow> jsval \<Rightarrow> jsval promise" where
  "priv_maybeCreateOneOnOneThenPost w params options =
     andThen ([], second_participant (lookup params ''participants'')) (\<lambda>other.
       orCatch
         (andThen (one_on_one_lookup w other options) (\<lambda>conversation.
            if truthy (lookup params ''comment'')
            then andThen
                   (post w conversation (JObj [(''displayName'', lookup params ''comment'')]) None)
                   (\<lambda>ca. ([], push_activity (fst ca) (snd ca)))
            else resolve conversation))
         (\<lambda>reason.
            if statusCode_of reason \<noteq> JNum 404 then reject reason
            else andThen ([], priv_prepareConversationForCreation w params) (\<lambda>payload.
                   priv_create w (put ''tags'' (JArr [JStr ''ONE_ON_ONE'']) payload))))"

section \<open>Listing: \<open>_list\<close>\<close>

text \<open>
  An item of a list response is an object with a \<open>published\<close> timestamp. The timestamps
  of one response are of one kind, numbers or ISO 8601 strings, and \<open>a < b\<close> on values of
  one kind is a linear order: the model takes them from any linearly ordered type and
  keeps the item itself beside its timestamp. A response may lack its \<open>body\<close>, or the
  body its \<open>items\<close>.
\<close>

record 't item =
  published :: 't
  item_object :: jsval

datatype 't list_body = NoBody | NoItems | Items "'t item list"

definition list_request :: "props \<Rightarrow> props" where
  "list_request options =
     put ''qs''
       (JObj (object_assign
          [(''personRefresh'', JBool True),
           (''uuidEntryFormat'', JBool True),
           (''activitiesLimit'', JNum 0),
           (''participantsLimit'', JNum 0)]
          (keysIn (lookup options ''qs''))))
       options"

text \<open>
  \<open>if (last(items).published < items[0].published) items.reverse()\<close>, on a list that is
  not empty.
\<close>

definition chronological :: "('t::linorder) item list \<Rightarrow> 't item list" where
  "chronological items =
     (if published (last items) < published (hd items) then rev items else items)"

definition priv_list ::
  "(props \<Rightarrow> error + ('t::linorder) list_body) \<Rightarrow> world \<Rightarrow> props \<Rightarrow> 't item list promise" where
  "priv_list transport w options =
     andThen (call (Request (list_request options)) (transport (list_request options)))
       (\<lambda>body.
          case body of
            NoBody \<Rightarrow> resolve []
          | NoItems \<Rightarrow> resolve []
          | Items [] \<Rightarrow> resolve []
          | Items (x # xs) \<Rightarrow>
              andThen
                (promise_all (\<lambda>item. priv_recordUUIDs w (item_object item))
                   (chronological (x # xs)))
                (\<lambda>_. resolve (chronological (x # xs))))"

section \<open>Teams: the outbound transform \<open>encryptTeam\<close>\<close>







section \<open>Room avatars: \<open>assign\<close>\<close>

text \<open>
  The avatar is a \<open>File\<close> (it has a \<open>size\<close>) or a buffer (it has a \<open>length\<close>); both are
  numbers of bytes where they are defined. The \<open>ShareActivity\<close> the avatar is added to
  comes from the plugin's own module \<open>share-activity\<close>; the model takes the activity
  it makes for a conversation and an avatar as a parameter.
\<close>

record avatar =
  avatar_size :: "int option"
  avatar_length :: "int option"

text \<open>\<open>(avatar.size || avatar.length) > 1024 * 1024\<close>\<close>

definition measured :: "avatar \<Rightarrow> int option" where
  "measured a =
     (case avatar_size a of
        Some n \<Rightarrow> (if n \<noteq> 0 then Some n else avatar_length a)
      | None \<Rightarrow> avatar_length a)"

definition too_big :: "avatar \<Rightarrow> bool" where
  "too_big a = (case measured a of Some n \<Rightarrow> n > 1024 * 1024 | None \<Rightarrow> False)"

definition assign ::
  "world \<Rightarrow> (jsval \<Rightarrow> avatar \<Rightarrow> activity_arg) \<Rightarrow> jsval \<Rightarrow> avatar \<Rightarrow> jsval promise" where
  "assign w shareActivity conversation a =
     (if too_big a then reject (Error ''Room avatars must be less than 1MB'')
      else andThen (priv_inferConversationUrl w conversation) (\<lambda>conversation.
             andThen
               ([], prepare w (Some (shareActivity conversation a))
                      (Some [(''target'', JObj (prepareConversation conversation))]))
               (\<lambda>act. submit w (put ''verb'' (JStr ''assign'') act))))"

section \<open>Example inputs\<close>

text \<open>
  A world whose collaborators all answer: the transport echoes the body it was sent,
  the identity service returns the reference it was given, the KMS mints one key.
\<close>

definition world0 :: world where
  "world0 =
     \<lparr>userId = JStr ''me'', uuid_v4 = ''tmp-1'', production = False, tap_swallows = True,
      getServiceUrl = (\<lambda>s. Inr ''https://conv.example''),
      request = (\<lambda>r. Inr (JObj [(''statusCode'', JNum 200), (''body'', lookup r ''body'')])),
      asUUID = (\<lambda>v. Inr (js_toString v)),
      recordUUID = (\<lambda>v. Inr ()),
      createUnboundKeys = (\<lambda>n. Inr (JArr [JObj [(''uri'', JStr ''kms://key/1'')]]))\<rparr>"

text \<open>A post whose object has \<open>content\<close> but neither \<open>displayName\<close> nor \<open>objectType\<close>.\<close>

definition html_only_activity :: activity_arg where
  "html_only_activity =
     \<lparr>act_fields = [(''object'', JObj [(''content'', JStr ''<b>hi</b>'')])],
      act_prepare = None\<rparr>"

definition post_params :: props where
  "post_params =
     [(''verb'', JStr ''post''),
      (''target'',
       JObj [(''url'', JStr ''https://conv.example/conversations/abc''),
             (''objectType'', JStr ''conversation'')])]"

definition html_only_built :: props where
  "html_only_built =
     [(''object'', JObj [(''content'', JStr ''<b>hi</b>'')]),
      (''verb'', JStr ''post''),
      (''kmsMessage'', JUndefined),
      (''objectType'', JStr ''activity''),
      (''clientTempId'', JStr ''tmp-1''),
      (''actor'', JObj [(''objectType'', JStr ''person''), (''id'', JStr ''me'')]),
      (''target'',
       JObj [(''url'', JStr ''https://conv.example/conversations/abc''),
             (''objectType'', JStr ''conversation''),
             (''id'', JStr ''abc'')])]"

text \<open>The same post with \<open>objectType\<close> given, so that only \<open>displayName\<close> is missing.\<close>

definition html_comment_activity :: activity_arg where
  "html_comment_activity =
     \<lparr>act_fields =
        [(''object'', JObj [(''objectType'', JStr ''comment''), (''content'', JStr ''<b>hi</b>'')])],
      act_prepare = None\<rparr>"

definition html_comment_built :: props where
  "html_comment_built =
     [(''object'', JObj [(''objectType'', JStr ''comment''), (''content'', JStr ''<b>hi</b>'')]),
      (''verb'', JStr ''post''),
      (''kmsMessage'', JUndefined),
      (''objectType'', JStr ''activity''),
      (''clientTempId'', JStr ''tmp-1''),
      (''actor'', JObj [(''objectType'', JStr ''person''), (''id'', JStr ''me'')]),
      (''target'',
       JObj [(''url'', JStr ''https://conv.example/conversations/abc''),
             (''objectType'', JStr ''conversation''),
             (''id'', JStr ''abc'')])]"

text \<open>A plain-text post, which \<open>prepare\<close> accepts.\<close>

definition text_activity :: activity_arg where
  "text_activity =
     \<lparr>act_fields =
        [(''object'', JObj [(''objectType'', JStr ''comment''), (''displayName'', JStr ''hi'')])],
      act_prepare = None\<rparr>"

definition text_prepared :: props where
  "text_prepared =
     [(''object'', JObj [(''objectType'', JStr ''comment''), (''displayName'', JStr ''hi'')]),
      (''verb'', JStr ''post''),
      (''kmsMessage'', JUndefined),
      (''objectType'', JStr ''activity''),
      (''clientTempId'', JStr ''tmp-1''),
      (''actor'', JObj [(''objectType'', JStr ''person''), (''id'', JStr ''me'')]),
      (''target'',
       JObj [(''url'', JStr ''https://conv.example/conversations/abc''),
             (''objectType'', JStr ''conversation''),
             (''id'', JStr ''abc'')])]"

text \<open>Activities for \<open>submit\<close>: a share, a read receipt, a post.\<close>

definition share_activity :: props where
  "share_activity = [(''verb'', JStr ''share''), (''objectType'', JStr ''activity'')]"

definition acknowledge_activity :: props where
  "acknowledge_activity = [(''verb'', JStr ''acknowledge''), (''objectType'', JStr ''activity'')]"


definition conv_fresh :: props where
  "conv_fresh =
     [(''id'', JStr ''abc''),
      (''url'', JStr ''https://conv.example/conversations/abc''),
      (''objectType'', JStr ''conversation''),
      (''participants'',
       JObj [(''items'', JArr [JObj [(''id'', JStr ''alice'')], JObj [(''id'', JStr ''bob'')]])])]"





definition two_party :: props where
  "two_party = [(''participants'', JArr [JStr ''me'', JStr ''bob'']), (''comment'', JStr ''hi'')]"


text \<open>
  A world in which the lookup finds the conversation with the other user, in the shape
  the service returns and \<open>create\<close> relies on: its activities under
  \<open>activities.items\<close>.
\<close>

definition found_conversation :: jsval where
  "found_conversation =
     JObj [(''id'', JStr ''abc''),
           (''url'', JStr ''https://conv.example/conversations/abc''),
           (''objectType'', JStr ''conversation''),
           (''activities'', JObj [(''items'', JArr [])])]"

definition world_found :: world where
  "world_found =
     world0\<lparr>request :=
       (\<lambda>r. if lookup r ''method'' = JStr ''POST''
             then Inr (JObj [(''statusCode'', JNum 200), (''body'', lookup r ''body'')])
             else Inr (JObj [(''statusCode'', JNum 200), (''body'', found_conversation)]))\<rparr>"

text \<open>Responses whose items were published at 5, 3, 1 and at 3, 5, 1.\<close>

definition item_at :: "int \<Rightarrow> int item" where
  "item_at t = \<lparr>published = t, item_object = JObj [(''published'', JNum t)]\<rparr>"

definition transport_531 :: "props \<Rightarrow> error + int list_body" where
  "transport_531 r = Inr (Items [item_at 5, item_at 3, item_at 1])"

definition transport_351 :: "props \<Rightarrow> error + int list_body" where
  "transport_351 r = Inr (Items [item_at 3, item_at 5, item_at 1])"

definition list_options :: props where
  "list_options = [(''service'', JStr ''conversation''), (''resource'', JStr ''activities'')]"




text \<open>A file of 2 MB, a buffer of 2 MB, and a share activity that is ready as it is.\<close>

definition big_file :: avatar where
  "big_file = \<lparr>avatar_size = Some 2097152, avatar_length = None\<rparr>"

definition big_buffer :: avatar where
  "big_buffer = \<lparr>avatar_size = None, avatar_length = Some 2097152\<rparr>"

definition share0 :: "jsval \<Rightarrow> avatar \<Rightarrow> activity_arg" where
  "share0 conversation a =
     \<lparr>act_fields = [(''verb'', JStr ''share''), (''object'', JObj [(''objectType'', JStr ''content'')])],
      act_prepare = None\<rparr>"


text \<open>An activity that brings a \<open>kmsMessage\<close> of its own.\<close>

definition own_kms_activity :: activity_arg where
  "own_kms_activity =
     \<lparr>act_fields = [(''kmsMessage'', JObj [(''method'', JStr ''custom'')])],
      act_prepare = None\<rparr>"


section \<open>Properties\<close>

lemma andThen_unfold:
  "andThen p f =
     (case snd p of
        Inl e \<Rightarrow> (fst p, Inl e)
      | Inr x \<Rightarrow> (fst p @ fst (f x), snd (f x)))"
  by (cases p) (auto simp: andThen_def split: sum.splits prod.splits)

lemma orCatch_unfold:
  "orCatch p f =
     (case snd p of
        Inl e \<Rightarrow> (fst p @ fst (f e), snd (f e))
      | Inr x \<Rightarrow> (fst p, Inr x))"
  by (cases p) (auto simp: orCatch_def split: sum.splits prod.splits)

lemma bindE_Inl [simp]: "bindE (Inl e) f = Inl e"
  by (simp add: bindE_def)

lemma bindE_Inr [simp]: "bindE (Inr x) f = f x"
  by (simp add: bindE_def)

lemma lookup_put: "lookup (put k v ps) k' = (if k' = k then v else lookup ps k')"
  by (induction ps) (auto simp: lookup_def)

subsection \<open>The checks of \<open>prepare\<close>\<close>

lemma check_objectTypes_Inr:
  "check_objectTypes keys act = Inr act' \<Longrightarrow>
   act' = act \<and> (\<forall>key \<in> set keys. \<not> lacks_objectType act key)"
  by (induction keys) (auto split: if_splits)

lemma check_objectTypes_Inl:
  "\<exists>key \<in> set keys. lacks_objectType act key \<Longrightarrow>
   \<exists>key \<in> set keys. lacks_objectType act key \<and> check_objectTypes keys act = Inl (objectType_error key)"
  by (induction keys) auto

lemma check_objectTypes_pass:
  "\<forall>key \<in> set keys. \<not> lacks_objectType act key \<Longrightarrow> check_objectTypes keys act = Inr act"
  by (induction keys) auto

lemma check_content_Inr:
  "check_content act = Inr act' \<Longrightarrow> act' = act \<and> \<not> content_without_displayName act"
  by (auto simp: check_content_def split: if_splits)

lemma prepare_Inr:
  assumes "prepare w a p = Inr act"
  shows "prepare_build w a p = Inr act"
    and "check_objectTypes [''actor'', ''object'', ''target''] act = Inr act"
    and "check_content act = Inr act"
proof -
  from assms obtain b where b: "prepare_build w a p = Inr b"
    by (cases "prepare_build w a p") (simp_all add: prepare_def)
  with assms obtain c where c: "check_objectTypes [''actor'', ''object'', ''target''] b = Inr c"
     and cc: "check_content c = Inr act"
    by (cases "check_objectTypes [''actor'', ''object'', ''target''] b") (simp_all add: prepare_def)
  from c have "c = b" using check_objectTypes_Inr by blast
  moreover from cc have "act = c" using check_content_Inr by blast
  ultimately show "prepare_build w a p = Inr act"
    and "check_objectTypes [''actor'', ''object'', ''target''] act = Inr act"
    and "check_content act = Inr act"
    using b c cc by simp_all
qed

lemma html_only_build: "prepare_build world0 (Some html_only_activity) (Some post_params) = Inr html_only_built"
  by code_simp

lemma html_only_lacks: "lacks_objectType html_only_built ''object''"
  by code_simp

lemma html_only_content: "content_without_displayName html_only_built"
  by code_simp

lemma html_only_prepare:
  "prepare world0 (Some html_only_activity) (Some post_params) = Inl (objectType_error ''object'')"
  by code_simp

lemma html_comment_build:
  "prepare_build world0 (Some html_comment_activity) (Some post_params) = Inr html_comment_built"
  by code_simp

lemma html_comment_content: "content_without_displayName html_comment_built"
  by code_simp

lemma html_comment_objectTypes:
  "\<not> lacks_objectType html_comment_built ''actor'' \<and> \<not> lacks_objectType html_comment_built ''object''
   \<and> \<not> lacks_objectType html_comment_built ''target''"
  by code_simp

lemma text_prepare: "prepare world0 (Some text_activity) (Some post_params) = Inr text_prepared"
  by code_simp

lemma text_target: "truthy (lookup text_prepared ''target'')"
  by code_simp

text \<open>
  C3. Whenever \<open>prepare\<close> returns an activity, each of \<open>actor\<close>, \<open>object\<close> and \<open>target\<close>
  that is populated (truthy, as the code tests it) has a truthy \<open>objectType\<close>. And when
  the activity \<open>prepare\<close> has built has a populated one of the three without
  \<open>objectType\<close>, \<open>prepare\<close> returns no activity: it fails with the construction
  error \<open>`act.<key>.objectType` must be defined\<close>, for a key that lacks it.
\<close>

theorem prepare_objectType:
  "(prepare w a p = Inr act \<and> key \<in> {''actor'', ''object'', ''target''} \<and> truthy (lookup act key)
      \<longrightarrow> truthy (field (lookup act key) ''objectType''))
   \<and> (prepare_build w a p = Inr b \<and> key \<in> {''actor'', ''object'', ''target''} \<and> lacks_objectType b key
      \<longrightarrow> (\<exists>key' \<in> {''actor'', ''object'', ''target''}.
             lacks_objectType b key' \<and> prepare w a p = Inl (objectType_error key')))"
proof (intro conjI impI)
  assume h: "prepare w a p = Inr act \<and> key \<in> {''actor'', ''object'', ''target''} \<and> truthy (lookup act key)"
  then have "check_objectTypes [''actor'', ''object'', ''target''] act = Inr act"
    using prepare_Inr(2) by blast
  then have "\<forall>k \<in> set [''actor'', ''object'', ''target'']. \<not> lacks_objectType act k"
    using check_objectTypes_Inr by blast
  with h show "truthy (field (lookup act key) ''objectType'')"
    by (auto simp: lacks_objectType_def)
next
  assume h: "prepare_build w a p = Inr b \<and> key \<in> {''actor'', ''object'', ''target''} \<and> lacks_objectType b key"
  then have "\<exists>k \<in> set [''actor'', ''object'', ''target'']. lacks_objectType b k" by auto
  from check_objectTypes_Inl [OF this]
  obtain k where k: "k \<in> set [''actor'', ''object'', ''target'']" "lacks_objectType b k"
    "check_objectTypes [''actor'', ''object'', ''target''] b = Inl (objectType_error k)" by blast
  with h have "prepare w a p = Inl (objectType_error k)"
    by (simp add: prepare_def)
  with k show "\<exists>key' \<in> {''actor'', ''object'', ''target''}.
             lacks_objectType b key' \<and> prepare w a p = Inl (objectType_error key')" by auto
qed

theorem prepare_objectType_witness:
  "prepare world0 (Some text_activity) (Some post_params) = Inr text_prepared
   \<and> truthy (lookup text_prepared ''target'')
   \<and> truthy (field (lookup text_prepared ''target'') ''objectType'')
   \<and> prepare_build world0 (Some html_only_activity) (Some post_params) = Inr html_only_built
   \<and> lacks_objectType html_only_built ''object''
   \<and> (\<exists>key' \<in> {''actor'', ''object'', ''target''}.
         lacks_objectType html_only_built key'
         \<and> prepare world0 (Some html_only_activity) (Some post_params) = Inl (objectType_error key'))"
  using prepare_objectType [of world0 "Some text_activity" "Some post_params" text_prepared
      "''target''" html_only_built]
    prepare_objectType [of world0 "Some html_only_activity" "Some post_params" text_prepared
      "''object''" html_only_built]
    text_prepare text_target html_only_build html_only_lacks
  by simp

lemma objectType_check_rejects:
  assumes "prepare_build w a p = Inr b"
    and "\<exists>key \<in> set [''actor'', ''object'', ''target'']. lacks_objectType b key"
  shows "\<exists>key \<in> set [''actor'', ''object'', ''target''].
           lacks_objectType b key \<and> prepare w a p = Inl (objectType_error key)"
proof -
  from check_objectTypes_Inl [OF assms(2)]
  obtain k where k: "k \<in> set [''actor'', ''object'', ''target'']" "lacks_objectType b k"
    "check_objectTypes [''actor'', ''object'', ''target''] b = Inl (objectType_error k)" by blast
  with assms(1) have "prepare w a p = Inl (objectType_error k)"
    by (simp add: prepare_def)
  with k show ?thesis by blast
qed

lemma content_check_rejects:
  assumes "prepare_build w a p = Inr b"
    and "\<forall>key \<in> set [''actor'', ''object'', ''target'']. \<not> lacks_objectType b key"
    and "content_without_displayName b"
  shows "prepare w a p = Inl content_error"
  using assms check_objectTypes_pass [OF assms(2)]
  by (simp add: prepare_def check_content_def)

lemma prepare_then_submit_Inl:
  "prepare w a p = Inl e \<Longrightarrow> prepare_then_submit w a p = ([], Inl e)"
  by (simp add: prepare_then_submit_def andThen_unfold)

lemma objectType_error_neq_content_error: "objectType_error key \<noteq> content_error"
  by (simp add: objectType_error_def content_error_def)

text \<open>
  C8, as stated, fails: the check of \<open>objectType\<close> comes first. A post whose object is
  \<open>{content: '<b>hi</b>'}\<close> has \<open>content\<close> and no \<open>displayName\<close>, and \<open>prepare\<close>
  rejects it with the construction error for \<open>object\<close>, not with the error about
  \<open>content\<close>.
\<close>

theorem prepare_content_counterexample:
  "prepare_build world0 (Some html_only_activity) (Some post_params) = Inr html_only_built
   \<and> content_without_displayName html_only_built
   \<and> prepare world0 (Some html_only_activity) (Some post_params) \<noteq> Inl content_error"
  using html_only_build html_only_content html_only_prepare
    objectType_error_neq_content_error [of "''object''"]
  by simp

text \<open>
  C8, amended. When the activity \<open>prepare\<close> has built has an object with \<open>content\<close> set
  and no \<open>displayName\<close>, \<open>prepare\<close> rejects, and the operation that would submit the
  activity issues no request and raises no notification. The rejection is the error
  about \<open>content\<close> when every populated one of \<open>actor\<close>, \<open>object\<close>, \<open>target\<close> has
  \<open>objectType\<close>, and the construction error about \<open>objectType\<close> otherwise.
\<close>

theorem prepare_content_rejected:
  "prepare_build w a p = Inr b \<and> content_without_displayName b \<longrightarrow>
     (\<exists>e. prepare w a p = Inl e \<and> prepare_then_submit w a p = ([], Inl e))
     \<and> ((\<forall>key \<in> {''actor'', ''object'', ''target''}. \<not> lacks_objectType b key)
          \<longrightarrow> prepare w a p = Inl content_error)
     \<and> ((\<exists>key \<in> {''actor'', ''object'', ''target''}. lacks_objectType b key)
          \<longrightarrow> (\<exists>key \<in> {''actor'', ''object'', ''target''}.
                 lacks_objectType b key \<and> prepare w a p = Inl (objectType_error key)))"
proof (intro impI)
  assume h: "prepare_build w a p = Inr b \<and> content_without_displayName b"
  have ok: "prepare w a p = Inl content_error"
    if "\<forall>key \<in> {''actor'', ''object'', ''target''}. \<not> lacks_objectType b key"
    using content_check_rejects [of w a p b] h that by simp
  have bad: "\<exists>key \<in> {''actor'', ''object'', ''target''}.
                 lacks_objectType b key \<and> prepare w a p = Inl (objectType_error key)"
    if "\<exists>key \<in> {''actor'', ''object'', ''target''}. lacks_objectType b key"
    using objectType_check_rejects [of w a p b] h that by simp
  have "\<exists>e. prepare w a p = Inl e"
  proof (cases "\<exists>key \<in> {''actor'', ''object'', ''target''}. lacks_objectType b key")
    case True
    with bad show ?thesis by blast
  next
    case False
    with ok show ?thesis by blast
  qed
  then have "\<exists>e. prepare w a p = Inl e \<and> prepare_then_submit w a p = ([], Inl e)"
    using prepare_then_submit_Inl by blast
  with ok bad show "(\<exists>e. prepare w a p = Inl e \<and> prepare_then_submit w a p = ([], Inl e))
     \<and> ((\<forall>key \<in> {''actor'', ''object'', ''target''}. \<not> lacks_objectType b key)
          \<longrightarrow> prepare w a p = Inl content_error)
     \<and> ((\<exists>key \<in> {''actor'', ''object'', ''target''}. lacks_objectType b key)
          \<longrightarrow> (\<exists>key \<in> {''actor'', ''object'', ''target''}.
                 lacks_objectType b key \<and> prepare w a p = Inl (objectType_error key)))"
    by blast
qed

theorem prepare_content_rejected_witness:
  "prepare_build world0 (Some html_comment_activity) (Some post_params) = Inr html_comment_built
   \<and> content_without_displayName html_comment_built
   \<and> \<not> lacks_objectType html_comment_built ''actor''
   \<and> \<not> lacks_objectType html_comment_built ''object''
   \<and> \<not> lacks_objectType html_comment_built ''target''
   \<and> prepare world0 (Some html_comment_activity) (Some post_params) = Inl content_error
   \<and> prepare_then_submit world0 (Some html_comment_activity) (Some post_params)
       = ([], Inl content_error)"
  using prepare_content_rejected [of world0 "Some html_comment_activity" "Some post_params"
      html_comment_built]
    html_comment_build html_comment_content html_comment_objectTypes
  by auto

subsection \<open>\<open>submit\<close>\<close>

lemma requests_append: "requests (xs @ ys) = requests xs @ requests ys"
  by (induction xs rule: requests.induct) simp_all

lemma submit_effects:
  "fst (submit w activity) =
     (if lookup activity ''verb'' \<noteq> JStr ''acknowledge'' then [Trigger ''user-activity''] else [])
     @ [Request (submit_params activity)]"
  by (simp add: submit_def andThen_unfold call_def resolve_def split: sum.splits)

lemma submit_params_share:
  "lookup activity ''verb'' = JStr ''share'' \<Longrightarrow>
   submit_params activity =
     [(''method'', JStr ''POST''), (''service'', JStr ''conversation''),
      (''resource'', JStr ''content''), (''body'', JObj activity),
      (''qs'', JObj [(''personRefresh'', JBool True), (''transcode'', JBool True),
                     (''async'', JBool False)])]"
  by (simp add: submit_params_def object_assign_def)

lemma submit_params_other:
  "lookup activity ''verb'' \<noteq> JStr ''share'' \<Longrightarrow>
   submit_params activity =
     [(''method'', JStr ''POST''), (''service'', JStr ''conversation''),
      (''resource'', JStr ''activities''), (''body'', JObj activity),
      (''qs'', JObj [(''personRefresh'', JBool True)])]"
  by (simp add: submit_params_def)

text \<open>
  C6. \<open>submit\<close> issues exactly one request. For an activity whose verb is \<open>share\<close> it
  goes to the resource \<open>content\<close> and its query parameters are \<open>personRefresh=true\<close>,
  \<open>transcode=true\<close>, \<open>async=false\<close>; for any other verb it goes to the resource
  \<open>activities\<close> and \<open>personRefresh=true\<close> is its only query parameter.
\<close>

theorem submit_routing:
  "requests (fst (submit w activity)) = [submit_params activity]
   \<and> (lookup activity ''verb'' = JStr ''share'' \<longrightarrow>
        lookup (submit_params activity) ''resource'' = JStr ''content''
        \<and> lookup (submit_params activity) ''qs''
            = JObj [(''personRefresh'', JBool True), (''transcode'', JBool True),
                    (''async'', JBool False)])
   \<and> (lookup activity ''verb'' \<noteq> JStr ''share'' \<longrightarrow>
        lookup (submit_params activity) ''resource'' = JStr ''activities''
        \<and> lookup (submit_params activity) ''qs'' = JObj [(''personRefresh'', JBool True)])"
proof (intro conjI impI)
  show "requests (fst (submit w activity)) = [submit_params activity]"
    by (simp add: submit_effects requests_append)
next
  assume "lookup activity ''verb'' = JStr ''share''"
  from submit_params_share [OF this]
  show "lookup (submit_params activity) ''resource'' = JStr ''content''"
    and "lookup (submit_params activity) ''qs''
            = JObj [(''personRefresh'', JBool True), (''transcode'', JBool True),
                    (''async'', JBool False)]"
    by (simp_all add: lookup_def)
next
  assume "lookup activity ''verb'' \<noteq> JStr ''share''"
  from submit_params_other [OF this]
  show "lookup (submit_params activity) ''resource'' = JStr ''activities''"
    and "lookup (submit_params activity) ''qs'' = JObj [(''personRefresh'', JBool True)]"
    by (simp_all add: lookup_def)
qed

lemma share_activity_verb: "lookup share_activity ''verb'' = JStr ''share''"
  by (simp add: share_activity_def lookup_def)

lemma text_prepared_verb: "lookup text_prepared ''verb'' = JStr ''post''"
  by (simp add: text_prepared_def lookup_def)

lemma acknowledge_activity_verb: "lookup acknowledge_activity ''verb'' = JStr ''acknowledge''"
  by (simp add: acknowledge_activity_def lookup_def)

theorem submit_routing_witness:
  "lookup share_activity ''verb'' = JStr ''share''
   \<and> lookup (submit_params share_activity) ''resource'' = JStr ''content''
   \<and> lookup (submit_params share_activity) ''qs''
       = JObj [(''personRefresh'', JBool True), (''transcode'', JBool True),
               (''async'', JBool False)]
   \<and> lookup text_prepared ''verb'' \<noteq> JStr ''share''
   \<and> lookup (submit_params text_prepared) ''resource'' = JStr ''activities''
   \<and> lookup (submit_params text_prepared) ''qs'' = JObj [(''personRefresh'', JBool True)]
   \<and> requests (fst (submit world0 text_prepared)) = [submit_params text_prepared]"
  using submit_routing [of world0 share_activity] submit_routing [of world0 text_prepared]
    share_activity_verb text_prepared_verb
  by simp

text \<open>
  C7. \<open>submit\<close> raises the \<open>user-activity\<close> notification if and only if the verb of the
  activity is not \<open>acknowledge\<close>.
\<close>

theorem submit_user_activity:
  "Trigger ''user-activity'' \<in> set (fst (submit w activity))
   \<longleftrightarrow> lookup activity ''verb'' \<noteq> JStr ''acknowledge''"
  by (simp add: submit_effects)

theorem submit_user_activity_witness:
  "Trigger ''user-activity'' \<notin> set (fst (submit world0 acknowledge_activity))
   \<and> Trigger ''user-activity'' \<in> set (fst (submit world0 text_prepared))"
  using submit_user_activity [of world0 acknowledge_activity]
    submit_user_activity [of world0 text_prepared]
    acknowledge_activity_verb text_prepared_verb
  by simp

subsection \<open>\<open>_updateKey\<close>\<close>







lemma lookup_normalize_actor:
  "k \<noteq> ''actor'' \<Longrightarrow> lookup (normalize_actor act) k = lookup act k"
  by (simp add: normalize_actor_def lookup_put del: put.simps)

lemma lookup_default_from_params:
  "k \<noteq> key \<Longrightarrow> lookup (default_from_params params key act) k = lookup act k"
  by (simp add: default_from_params_def lookup_put del: put.simps)

lemma lookup_apply_target:
  "k \<noteq> ''target'' \<Longrightarrow> lookup (apply_target params act) k = lookup act k"
  by (simp add: apply_target_def lookup_put del: put.simps)

lemma lookup_derive_ids:
  "derive_ids keys act = Inr act' \<Longrightarrow> k \<notin> set keys \<Longrightarrow> lookup act' k = lookup act k"
proof (induction keys arbitrary: act)
  case Nil
  then show ?case by simp
next
  case (Cons key keys)
  then show ?case
    by (auto simp: lookup_put simp del: put.simps split: if_splits jsval.splits)
qed

text \<open>
  What \<open>prepare\<close> builds from an activity that has no \<open>kmsMessage\<close> of its own (and no
  hook) carries the \<open>kmsMessage\<close> of the parameters, and that is what \<open>_updateKey\<close>
  submits.
\<close>

lemma prepare_build_kmsMessage:
  assumes "prepare_build w (Some \<lparr>act_fields = fs, act_prepare = None\<rparr>) (Some params) = Inr act"
    and "lookup fs ''kmsMessage'' = JUndefined"
  shows "lookup act ''kmsMessage'' = lookup params ''kmsMessage''"
proof -
  have d: "lookup (defaults fs
                        [(''verb'', lookup params ''verb''),
                         (''kmsMessage'', lookup params ''kmsMessage''),
                         (''objectType'', JStr ''activity''),
                         (''clientTempId'', JStr (uuid_v4 w)),
                         (''actor'', userId w)]) ''kmsMessage'' = lookup params ''kmsMessage''"
    using assms(2) by (simp add: defaults_def lookup_put del: put.simps)
  let ?built = "apply_target params
                  (fold (default_from_params params) [''actor'', ''object'']
                    (normalize_actor
                      (defaults fs
                        [(''verb'', lookup params ''verb''),
                         (''kmsMessage'', lookup params ''kmsMessage''),
                         (''objectType'', JStr ''activity''),
                         (''clientTempId'', JStr (uuid_v4 w)),
                         (''actor'', userId w)])))"
  from assms(1) have "derive_ids [''object'', ''target''] ?built = Inr act"
    by (simp add: prepare_build_def del: derive_ids.simps)
  then have "lookup act ''kmsMessage'' = lookup ?built ''kmsMessage''"
    by (rule lookup_derive_ids) simp
  with d show ?thesis
    by (simp add: lookup_apply_target lookup_default_from_params lookup_normalize_actor)
qed

lemma requests_resolve_keys: "requests (fst (resolve_keys w key)) = []"
  by (simp add: resolve_keys_def resolve_def call_def)

lemma updateKey_submits_kmsMessage:
  assumes "bound_key w key = Inr k" "updateKey_params conversation k = Inr params"
    and "prepare w (Some \<lparr>act_fields = fs, act_prepare = None\<rparr>) (Some params) = Inr act"
    and "lookup fs ''kmsMessage'' = JUndefined"
  shows "requests (fst (priv_updateKey w conversation key
                     (Some \<lparr>act_fields = fs, act_prepare = None\<rparr>))) = [submit_params act]"
    and "field (lookup (submit_params act) ''body'') ''kmsMessage'' = lookup params ''kmsMessage''"
proof -
  from assms(1) obtain keys
    where k: "snd (resolve_keys w key) = Inr keys" "k = first_key keys"
    by (auto simp: bound_key_def bindE_def split: sum.splits)
  with assms(2,3)
  show "requests (fst (priv_updateKey w conversation key
                     (Some \<lparr>act_fields = fs, act_prepare = None\<rparr>))) = [submit_params act]"
    by (simp add: priv_updateKey_def prepare_then_submit_def andThen_unfold requests_append
        requests_resolve_keys submit_effects)
  from prepare_Inr(1) [OF assms(3)] assms(4)
  have "lookup act ''kmsMessage'' = lookup params ''kmsMessage''"
    by (rule prepare_build_kmsMessage)
  then show "field (lookup (submit_params act) ''body'') ''kmsMessage'' = lookup params ''kmsMessage''"
    by (simp add: submit_params_def Let_def lookup_def)
qed







subsection \<open>\<open>_maybeCreateOneOnOneThenPost\<close>\<close>



lemma maybe_found_no_comment:
  assumes "second_participant (lookup params ''participants'') = Inr other"
    and "snd (one_on_one_lookup w other options) = Inr conversation"
    and "\<not> truthy (lookup params ''comment'')"
  shows "priv_maybeCreateOneOnOneThenPost w params options =
           (fst (one_on_one_lookup w other options), Inr conversation)"
  using assms
  by (simp add: priv_maybeCreateOneOnOneThenPost_def andThen_unfold orCatch_unfold resolve_def)






text \<open>
  C5 says that after a successful lookup with a comment supplied the resolver returns
  the conversation with the posted comment appended to \<open>conversation.activities.items\<close>.
  The code does not, at this input: the lookup finds the conversation
  \<open>{..., activities: {items: []}}\<close> and the comment is \<open>hi\<close>. The comment is posted
  (the second request goes to \<open>activities\<close>), then
  \<open>conversation.activities.push(activity)\<close> is a call on the object that holds
  \<open>items\<close>, not on \<open>items\<close>: the resolver rejects with a \<open>TypeError\<close> and returns no
  conversation.
\<close>

theorem one_on_one_comment_not_appended:
  "snd (one_on_one_lookup world_found (JStr ''bob'') JUndefined) = Inr found_conversation
   \<and> lookup two_party ''comment'' = JStr ''hi''
   \<and> map (\<lambda>r. lookup r ''resource'')
        (requests (fst (priv_maybeCreateOneOnOneThenPost world_found two_party JUndefined)))
       = [JStr ''conversations/user/bob'', JStr ''activities'']
   \<and> snd (priv_maybeCreateOneOnOneThenPost world_found two_party JUndefined)
       = Inl (TypeError ''conversation.activities.push is not a function'')"
  by code_simp

subsection \<open>\<open>_list\<close>\<close>

lemma promise_all_ok:
  "\<forall>x \<in> set xs. snd (f x) = Inr (g x) \<Longrightarrow> snd (promise_all f xs) = Inr (map g xs)"
  by (induction xs) (auto split: prod.splits sum.splits)

lemma descending_last_least:
  fixes xs :: "('a::linorder) list"
  shows "sorted_wrt (\<lambda>x y. y \<le> x) xs \<Longrightarrow> x \<in> set xs \<Longrightarrow> last xs \<le> x"
  by (induction xs) auto

lemma descending_hd_greatest:
  fixes xs :: "('a::linorder) list"
  shows "sorted_wrt (\<lambda>x y. y \<le> x) xs \<Longrightarrow> x \<in> set xs \<Longrightarrow> x \<le> hd xs"
  by (cases xs) auto

lemma ascending_hd_le_last:
  fixes xs :: "('a::linorder) list"
  shows "sorted xs \<Longrightarrow> xs \<noteq> [] \<Longrightarrow> hd xs \<le> last xs"
  by (cases xs) auto

text \<open>A descending list whose last element is not below its first is constant.\<close>

lemma descending_not_reversed:
  fixes xs :: "('a::linorder) list"
  assumes "sorted (rev xs)" "xs \<noteq> []" "\<not> last xs < hd xs"
  shows "sorted xs"
proof -
  from assms(1) have d: "sorted_wrt (\<lambda>x y. y \<le> x) xs"
    by (simp add: sorted_wrt_rev)
  have eq: "x = hd xs" if "x \<in> set xs" for x
    using descending_last_least [OF d that] descending_hd_greatest [OF d that] assms(3)
    by simp
  show ?thesis
  proof (rule sorted_wrt_mono_rel [OF _ d])
    fix x y
    assume "x \<in> set xs" "y \<in> set xs"
    then have "x = hd xs" "y = hd xs" using eq by blast+
    then show "x \<le> y" by simp
  qed
qed

lemma chronological_sorted:
  fixes items :: "('t::linorder) item list"
  assumes "items \<noteq> []"
    and "sorted (map published items) \<or> sorted (rev (map published items))"
  shows "sorted (map published (chronological items))"
proof (cases "published (last items) < published (hd items)")
  case True
  with assms have "\<not> sorted (map published items)"
    using ascending_hd_le_last [of "map published items"]
    by (auto simp: last_map hd_map)
  with assms True show ?thesis
    by (simp add: chronological_def rev_map)
next
  case False
  with assms descending_not_reversed [of "map published items"]
  have "sorted (map published items)"
    by (auto simp: last_map hd_map)
  with False show ?thesis
    by (simp add: chronological_def)
qed

lemma priv_list_items:
  assumes "transport (list_request options) = Inr (Items items)" "items \<noteq> []"
    and "\<forall>item \<in> set items. snd (priv_recordUUIDs w (item_object item)) = Inr ()"
  shows "snd (priv_list transport w options) = Inr (chronological items)"
proof -
  from assms(2) obtain x xs where i: "items = x # xs" by (cases items) auto
  have "set (chronological items) = set items"
    by (simp add: chronological_def)
  with assms(3) have "\<forall>item \<in> set (chronological items).
      snd (priv_recordUUIDs w (item_object item)) = Inr ()" by simp
  from promise_all_ok [OF this]
  have "snd (promise_all (\<lambda>item. priv_recordUUIDs w (item_object item)) (chronological items))
          = Inr (map (\<lambda>i. ()) (chronological items))" .
  with assms(1) i show ?thesis
    by (simp add: priv_list_def andThen_unfold call_def resolve_def)
qed

lemma list_351:
  "snd (priv_list transport_351 world0 list_options) = Inr [item_at 1, item_at 5, item_at 3]"
  by code_simp

text \<open>
  C4, as stated, fails: \<open>_list\<close> reverses or leaves alone, it does not sort. For items
  published at 3, 5, 1 the last precedes the first, the sequence is reversed, and the
  result 1, 5, 3 is not ascending.
\<close>

theorem list_order_counterexample:
  "transport_351 (list_request list_options) = Inr (Items [item_at 3, item_at 5, item_at 1])
   \<and> snd (priv_list transport_351 world0 list_options) = Inr [item_at 1, item_at 5, item_at 3]
   \<and> map published [item_at 1, item_at 5, item_at 3] = [1, 5, 3]
   \<and> \<not> sorted (map published [item_at 1, item_at 5, item_at 3])"
  using list_351 by (simp add: transport_351_def item_at_def)

text \<open>
  C4, amended. For a response with items, \<open>_list\<close> returns the items reversed exactly
  when the last item's \<open>published\<close> precedes the first item's, and as received
  otherwise (every item's participants being recorded without failure). The result is
  ascending by \<open>published\<close> whenever the items came ascending or descending; items
  published at 5, 3, 1 are returned as 1, 3, 5.
\<close>

theorem list_order:
  fixes items :: "('t::linorder) item list"
  shows "transport (list_request options) = Inr (Items items) \<and> items \<noteq> []
     \<and> (\<forall>item \<in> set items. snd (priv_recordUUIDs w (item_object item)) = Inr ()) \<longrightarrow>
       snd (priv_list transport w options)
         = Inr (if published (last items) < published (hd items) then rev items else items)
       \<and> (sorted (map published items) \<or> sorted (rev (map published items)) \<longrightarrow>
            sorted (map published
              (if published (last items) < published (hd items) then rev items else items)))"
proof (intro impI conjI)
  assume h: "transport (list_request options) = Inr (Items items) \<and> items \<noteq> []
     \<and> (\<forall>item \<in> set items. snd (priv_recordUUIDs w (item_object item)) = Inr ())"
  then show "snd (priv_list transport w options)
         = Inr (if published (last items) < published (hd items) then rev items else items)"
    using priv_list_items [of transport options items w] by (simp add: chronological_def)
  assume "sorted (map published items) \<or> sorted (rev (map published items))"
  with h chronological_sorted [of items]
  show "sorted (map published
          (if published (last items) < published (hd items) then rev items else items))"
    by (simp add: chronological_def)
qed

lemma list_531_recorded:
  "\<forall>item \<in> set [item_at 5, item_at 3, item_at 1].
     snd (priv_recordUUIDs world0 (item_object item)) = Inr ()"
  by code_simp

theorem list_order_witness:
  "transport_531 (list_request list_options) = Inr (Items [item_at 5, item_at 3, item_at 1])
   \<and> snd (priv_list transport_531 world0 list_options) = Inr [item_at 1, item_at 3, item_at 5]
   \<and> map published [item_at 1, item_at 3, item_at 5] = [1, 3, 5]
   \<and> sorted (map published [item_at 1, item_at 3, item_at 5])"
  using list_order [of transport_531 list_options "[item_at 5, item_at 3, item_at 1]" world0]
    list_531_recorded
  by (simp add: transport_531_def item_at_def)

subsection \<open>\<open>encryptTeam\<close>\<close>











subsection \<open>\<open>assign\<close>\<close>

text \<open>
  C10. An avatar whose size exceeds 1048576 bytes, the size being \<open>avatar.size\<close>, or
  \<open>avatar.length\<close> when \<open>avatar.size\<close> is undefined or 0, is rejected by \<open>assign\<close> with
  the error \<open>Room avatars must be less than 1MB\<close>, whatever the conversation and the
  surroundings, and without any call: no lookup of the service URL, no request, no
  notification.
\<close>

theorem assign_too_big:
  "((avatar_size a = Some n \<and> n \<noteq> 0)
      \<or> ((avatar_size a = None \<or> avatar_size a = Some 0) \<and> avatar_length a = Some n))
   \<and> n > 1048576 \<longrightarrow>
   assign w shareActivity conversation a
     = ([], Inl (Error ''Room avatars must be less than 1MB''))"
  by (auto simp: assign_def too_big_def measured_def reject_def)

theorem assign_too_big_witness:
  "avatar_size big_file = Some 2097152
   \<and> assign world0 share0 (JObj conv_fresh) big_file
       = ([], Inl (Error ''Room avatars must be less than 1MB''))
   \<and> avatar_size big_buffer = None \<and> avatar_length big_buffer = Some 2097152
   \<and> assign world0 share0 (JObj conv_fresh) big_buffer
       = ([], Inl (Error ''Room avatars must be less than 1MB''))"
  using assign_too_big [of big_file 2097152 world0 share0 "JObj conv_fresh"]
    assign_too_big [of big_buffer 2097152 world0 share0 "JObj conv_fresh"]
  by (simp add: big_file_def big_buffer_def)

end
